theory Spec2Isabelle
  imports Complex_Main "HOL-Library.Code_Target_Numeral"
begin

section \<open>Al-Shifa dental front end: LocationPicker\<close>

text \<open>
  The React components are modelled as state machines. A component's \<open>useState\<close>
  variables form a record, every event handler is a function from the world before the
  event to the world after it, and what a handler does to its surroundings (the
  \<open>onChange\<close> callback, local storage, the router, the API client) is recorded in the
  world. JavaScript strings are modelled as \<open>string\<close>; the handlers below only store,
  compare and measure them.
\<close>

subsection \<open>Data\<close>

text \<open>\<open>type LocationData = { address: string; pincode: string; lat?: number; lng?: number }\<close>\<close>

record LocationData =
  address :: string
  pincode :: string
  lat :: "real option"
  lng :: "real option"

text \<open>\<open>initialData?: Partial<LocationData>\<close>: every field may be absent.\<close>

record PartialLocationData =
  init_address :: "string option"
  init_pincode :: "string option"
  init_lat :: "real option"
  init_lng :: "real option"

text \<open>The two \<open>useState\<close> variables of the component.\<close>

record lp_state =
  lp_address :: string
  lp_pincode :: string

text \<open>
  The component together with the calls it has made to its \<open>onChange\<close> prop, oldest
  first.
\<close>

record lp_world =
  lp_ui :: lp_state
  lp_emitted :: "LocationData list"

text \<open>
  JavaScript's \<open>x || ""\<close> on an optional string: \<open>undefined\<close> and the empty string are
  falsy and give the right operand.
\<close>

definition or_empty :: "string option \<Rightarrow> string" where
  "or_empty x = (case x of None \<Rightarrow> [] | Some s \<Rightarrow> (if s = [] then [] else s))"

text \<open>
  \<open>useState(initialData?.address || "")\<close> and \<open>useState(initialData?.pincode || "")\<close>;
  the optional chaining gives \<open>undefined\<close> when \<open>initialData\<close> itself is absent.
\<close>

definition LocationPicker :: "PartialLocationData option \<Rightarrow> lp_world" where
  "LocationPicker initialData =
     \<lparr> lp_ui = \<lparr> lp_address = or_empty (Option.bind initialData init_address),
                  lp_pincode = or_empty (Option.bind initialData init_pincode) \<rparr>,
       lp_emitted = [] \<rparr>"

subsection \<open>Handlers\<close>

definition setAddress :: "string \<Rightarrow> lp_world \<Rightarrow> lp_world" where
  "setAddress v w = w\<lparr> lp_ui := (lp_ui w)\<lparr> lp_address := v \<rparr> \<rparr>"

definition setPincode :: "string \<Rightarrow> lp_world \<Rightarrow> lp_world" where
  "setPincode v w = w\<lparr> lp_ui := (lp_ui w)\<lparr> lp_pincode := v \<rparr> \<rparr>"

text \<open>The \<open>onChange\<close> prop: the call is appended to the log.\<close>

definition onChange :: "LocationData \<Rightarrow> lp_world \<Rightarrow> lp_world" where
  "onChange loc w = w\<lparr> lp_emitted := lp_emitted w @ [loc] \<rparr>"

text \<open>
  \<open>const emit = () => onChange({ address, pincode })\<close>: the object literal has no
  \<open>lat\<close> and no \<open>lng\<close>.
\<close>

definition emit :: "lp_world \<Rightarrow> lp_world" where
  "emit w = onChange \<lparr> address = lp_address (lp_ui w), pincode = lp_pincode (lp_ui w),
                        lat = None, lng = None \<rparr> w"

definition handleDetectLocation :: "lp_world \<Rightarrow> lp_world" where
  "handleDetectLocation w =
     onChange \<lparr> address = ''123 Detected St, Tech Park'', pincode = ''500081'',
                lat = None, lng = None \<rparr>
       (setPincode ''500081'' (setAddress ''123 Detected St, Tech Park'' w))"

text \<open>\<open>maxLength={6}\<close> on the pincode input.\<close>

definition pincode_maxLength :: nat where
  "pincode_maxLength = 6"

text \<open>
  The events the rendered tree can deliver: a change of either input carrying the
  input's new value (\<open>e.target.value\<close>), either input losing focus, and a click on the
  detect button.
\<close>

datatype lp_event =
    ChangeAddress string
  | ChangePincode string
  | BlurAddress
  | BlurPincode
  | ClickDetect

fun lp_step :: "lp_world \<Rightarrow> lp_event \<Rightarrow> lp_world" where
  "lp_step w (ChangeAddress v) = setAddress v w"
| "lp_step w (ChangePincode v) = setPincode v w"
| "lp_step w BlurAddress = emit w"
| "lp_step w BlurPincode = emit w"
| "lp_step w ClickDetect = handleDetectLocation w"

definition lp_run :: "lp_world \<Rightarrow> lp_event list \<Rightarrow> lp_world" where
  "lp_run w evs = foldl lp_step w evs"

text \<open>
  Modelled from the spec: the \<open>Input\<close> component (\<open>@/components/ui/input\<close>) is not among
  the sources. With the specification ("pincode field is capped at 6 characters") an
  \<open>Input\<close> given \<open>maxLength\<close> hands its \<open>onChange\<close> handler only values of at most
  \<open>maxLength\<close> characters.
\<close>

definition Input_delivers :: "nat \<Rightarrow> string \<Rightarrow> bool" where
  "Input_delivers maxLength v = (length v \<le> maxLength)"

text \<open>
  An event the rendered inputs can deliver: a change of the pincode input carries a
  value its \<open>maxLength\<close> lets through; the address input has no \<open>maxLength\<close>. The handler
  itself stores whatever it is given.
\<close>

fun within_maxLength :: "lp_event \<Rightarrow> bool" where
  "within_maxLength (ChangePincode v) = Input_delivers pincode_maxLength v"
| "within_maxLength _ = True"

section \<open>The browser environment of the two forms\<close>

text \<open>
  What the login and signup pages do outside their own state, in the order they do it:
  a call to the API client, a write to local storage, a client-side navigation, a line
  on the console.
\<close>

text \<open>
  A JavaScript number as far as \<open>parseInt\<close> produces one. Every integer of magnitude at
  most \<open>2 ^ 53\<close> is a double, and \<open>Num n\<close> is that double. Beyond that range JavaScript
  holds a double near the integer (rounded to 53 significant bits, \<open>Infinity\<close> when
  too large, and read from the first 20 digits only if the engine so chooses);
  \<open>Inexact n\<close> stands for the double JavaScript makes of the integer \<open>n\<close> there, without
  saying which one it is.
\<close>

datatype js_number = NaN | Num int | Inexact int

text \<open>The double of a mathematical integer.\<close>

definition to_number :: "int \<Rightarrow> js_number" where
  "to_number n = (if \<bar>n\<bar> \<le> 2 ^ 53 then Num n else Inexact n)"

text \<open>The JSON values a request body is built from; an object keeps its keys in order.\<close>

datatype js_value =
    JNull
  | JNumber js_number
  | JString string
  | JObject "(string \<times> js_value) list"


datatype effect =
    ApiLogin string string
  | ApiPost string js_value
  | SetItem string string
  | RouterPush string
  | ConsoleError

text \<open>
  A mounted page: its \<open>useState\<close> variables, the browser's local storage, the current
  route, the log of effects (oldest first) and the number of awaited network calls that
  have not settled yet.
\<close>

record 'ui world =
  ui :: 'ui
  localStorage :: "string \<rightharpoonup> string"
  route :: string
  effects :: "effect list"
  inflight :: nat

text \<open>\<open>localStorage.setItem(key, value)\<close>\<close>

definition setItem :: "string \<Rightarrow> string \<Rightarrow> 'ui world \<Rightarrow> 'ui world" where
  "setItem k v w = w\<lparr> localStorage := (localStorage w)(k \<mapsto> v),
                      effects := effects w @ [SetItem k v] \<rparr>"

text \<open>\<open>router.push(path)\<close>\<close>

definition router_push :: "string \<Rightarrow> 'ui world \<Rightarrow> 'ui world" where
  "router_push path w = w\<lparr> route := path, effects := effects w @ [RouterPush path] \<rparr>"

text \<open>\<open>console.error(err)\<close>\<close>

definition console_error :: "'ui world \<Rightarrow> 'ui world" where
  "console_error w = w\<lparr> effects := effects w @ [ConsoleError] \<rparr>"

text \<open>An awaited call to the API client leaves the handler suspended until it settles.\<close>

definition await_call :: "effect \<Rightarrow> 'ui world \<Rightarrow> 'ui world" where
  "await_call c w = w\<lparr> effects := effects w @ [c], inflight := Suc (inflight w) \<rparr>"

definition call_settled :: "'ui world \<Rightarrow> 'ui world" where
  "call_settled w = w\<lparr> inflight := inflight w - 1 \<rparr>"

text \<open>
  Modelled from the spec: the \<open>Button\<close> component (\<open>@/components/ui/button\<close>) is not among
  the sources. With the specification ("a loading flag gating duplicate submissions") the
  submit \<open>Button\<close> of a form submits the form only while its \<open>disabled\<close> prop is false.
\<close>

definition Button_submits :: "bool \<Rightarrow> bool" where
  "Button_submits disabled = (\<not> disabled)"

section \<open>DoctorLogin\<close>

text \<open>
  Modelled from the spec: \<open>AuthAPI\<close> (\<open>@/lib/api\<close>) is not among the sources. With the
  specification's data model, the \<open>response.data\<close> of a resolved \<open>AuthAPI.login\<close> is the
  session \<open>{ access_token: string, role: string }\<close>.
\<close>

record AuthSession =
  access_token :: string
  role :: string

text \<open>How the awaited \<open>AuthAPI.login(email, password)\<close> settles.\<close>

datatype login_outcome = LoginResolved AuthSession | LoginRejected

record dl_state =
  dl_email :: string
  dl_password :: string
  dl_loading :: bool
  dl_error :: string

text \<open>The four \<open>useState\<close> defaults.\<close>

definition DoctorLogin :: "(string \<rightharpoonup> string) \<Rightarrow> string \<Rightarrow> dl_state world" where
  "DoctorLogin ls r =
     \<lparr> ui = \<lparr> dl_email = [], dl_password = [], dl_loading = False, dl_error = [] \<rparr>,
       localStorage = ls, route = r, effects = [], inflight = 0 \<rparr>"

definition setEmail :: "string \<Rightarrow> dl_state world \<Rightarrow> dl_state world" where
  "setEmail v w = w\<lparr> ui := (ui w)\<lparr> dl_email := v \<rparr> \<rparr>"

definition setPassword :: "string \<Rightarrow> dl_state world \<Rightarrow> dl_state world" where
  "setPassword v w = w\<lparr> ui := (ui w)\<lparr> dl_password := v \<rparr> \<rparr>"

definition dl_setLoading :: "bool \<Rightarrow> dl_state world \<Rightarrow> dl_state world" where
  "dl_setLoading b w = w\<lparr> ui := (ui w)\<lparr> dl_loading := b \<rparr> \<rparr>"

definition dl_setError :: "string \<Rightarrow> dl_state world \<Rightarrow> dl_state world" where
  "dl_setError m w = w\<lparr> ui := (ui w)\<lparr> dl_error := m \<rparr> \<rparr>"

text \<open>
  \<open>handleLogin\<close> up to its \<open>await\<close>: \<open>setLoading(true)\<close>, \<open>setError("")\<close>, then the call
  \<open>AuthAPI.login(email, password)\<close>.
\<close>

definition handleLogin_submit :: "dl_state world \<Rightarrow> dl_state world" where
  "handleLogin_submit w =
     (let w1 = dl_setError [] (dl_setLoading True w)
      in await_call (ApiLogin (dl_email (ui w)) (dl_password (ui w))) w1)"

text \<open>The \<open>finally\<close> block: \<open>setLoading(false)\<close>; the awaited call is over.\<close>

definition handleLogin_finally :: "dl_state world \<Rightarrow> dl_state world" where
  "handleLogin_finally w = dl_setLoading False (call_settled w)"

text \<open>
  \<open>handleLogin\<close> from the point where the awaited call settles: the role check with its
  early \<open>return\<close>, the two \<open>setItem\<close> calls and the navigation, or the \<open>catch\<close> block;
  the \<open>finally\<close> block runs on every path.
\<close>

definition handleLogin_settle :: "login_outcome \<Rightarrow> dl_state world \<Rightarrow> dl_state world" where
  "handleLogin_settle outcome w =
     (case outcome of
        LoginResolved data \<Rightarrow>
          if role data \<noteq> ''doctor''
          then handleLogin_finally
                 (dl_setError ''Access Denied: This portal is for Doctors only.'' w)
          else handleLogin_finally
                 (router_push ''/doctor/dashboard''
                   (setItem ''role'' (role data)
                     (setItem ''token'' (access_token data) w)))
      | LoginRejected \<Rightarrow>
          handleLogin_finally
            (dl_setError ''Invalid credentials or server error.'' (console_error w)))"

text \<open>One submission from start to finish, nothing else happening in between.\<close>

definition handleLogin :: "login_outcome \<Rightarrow> dl_state world \<Rightarrow> dl_state world" where
  "handleLogin outcome w = handleLogin_settle outcome (handleLogin_submit w)"

text \<open>\<open>disabled={loading}\<close> on the submit button.\<close>

definition dl_submit_disabled :: "dl_state world \<Rightarrow> bool" where
  "dl_submit_disabled w = dl_loading (ui w)"

text \<open>
  The events of the page: typing into either input, submitting the form (a disabled
  submit button submits nothing), and the awaited call settling (only a call that is in
  flight can settle).
\<close>

datatype dl_event =
    ChangeEmail string
  | ChangePassword string
  | SubmitLogin
  | SettleLogin login_outcome

fun dl_step :: "dl_state world \<Rightarrow> dl_event \<Rightarrow> dl_state world" where
  "dl_step w (ChangeEmail v) = setEmail v w"
| "dl_step w (ChangePassword v) = setPassword v w"
| "dl_step w SubmitLogin =
     (if Button_submits (dl_submit_disabled w) then handleLogin_submit w else w)"
| "dl_step w (SettleLogin outcome) =
     (if inflight w = 0 then w else handleLogin_settle outcome w)"

definition dl_run :: "dl_state world \<Rightarrow> dl_event list \<Rightarrow> dl_state world" where
  "dl_run w evs = foldl dl_step w evs"

section \<open>DoctorSignup\<close>

subsection \<open>\<open>parseInt\<close>\<close>

text \<open>
  JavaScript's \<open>parseInt(string)\<close> with no radix: leading white space is skipped, one
  sign is read, a \<open>0x\<close> or \<open>0X\<close> prefix selects radix 16 and anything else radix 10,
  and the longest run of digits of that radix is the number; with no digit the result is
  \<open>NaN\<close>. Whatever follows the digits is ignored.

  A \<open>char\<close> stands for the code unit of the same number, so the strings of the model are
  the JavaScript strings of code units below 256. The white space and line terminator
  characters of JavaScript in that range are U+0009 to U+000D, U+0020 and U+00A0.
\<close>

definition is_js_whitespace :: "char \<Rightarrow> bool" where
  "is_js_whitespace c =
     (c \<in> set [CHR 0x09, CHR 0x0A, CHR 0x0B, CHR 0x0C, CHR 0x0D, CHR '' '', CHR 0xA0])"

definition digit_value :: "char \<Rightarrow> nat option" where
  "digit_value c =
     (let n = (of_char c :: nat)
      in if 48 \<le> n \<and> n \<le> 57 then Some (n - 48)
         else if 97 \<le> n \<and> n \<le> 102 then Some (n - 87)
         else if 65 \<le> n \<and> n \<le> 70 then Some (n - 55)
         else None)"

definition is_radix_digit :: "nat \<Rightarrow> char \<Rightarrow> bool" where
  "is_radix_digit R c = (case digit_value c of None \<Rightarrow> False | Some d \<Rightarrow> d < R)"

definition digits_value :: "nat \<Rightarrow> string \<Rightarrow> nat" where
  "digits_value R ds = foldl (\<lambda>a c. a * R + (case digit_value c of None \<Rightarrow> 0 | Some d \<Rightarrow> d)) 0 ds"

definition parseInt :: "string \<Rightarrow> js_number" where
  "parseInt s =
     (let s1 = dropWhile is_js_whitespace s;
          neg = (s1 \<noteq> [] \<and> hd s1 = CHR ''-'');
          s2 = (if s1 \<noteq> [] \<and> (hd s1 = CHR ''+'' \<or> hd s1 = CHR ''-'') then tl s1 else s1);
          hex = (take 2 s2 = ''0x'' \<or> take 2 s2 = ''0X'');
          R = (if hex then 16 else 10);
          s3 = (if hex then drop 2 s2 else s2);
          ds = takeWhile (is_radix_digit R) s3
      in if ds = [] then NaN
         else to_number ((if neg then - 1 else 1) * int (digits_value R ds)))"

subsection \<open>State\<close>

text \<open>The \<open>formData\<close> object; every field holds a string.\<close>

record formData =
  firstName :: string
  lastName :: string
  email :: string
  password :: string
  hospital_name :: string
  hospital_select :: string
  license_number :: string
  specialization :: string
  scheduleMode :: string
  workMinutes :: string
  breakMinutes :: string

record ds_state =
  ds_loading :: bool
  ds_error :: string
  ds_fileName :: "string option"
  ds_isCustomHospital :: bool
  ds_formData :: formData

text \<open>The \<open>useState\<close> defaults.\<close>

definition DoctorSignup :: "(string \<rightharpoonup> string) \<Rightarrow> string \<Rightarrow> ds_state world" where
  "DoctorSignup ls r =
     \<lparr> ui = \<lparr> ds_loading = False, ds_error = [], ds_fileName = None,
              ds_isCustomHospital = False,
              ds_formData = \<lparr> firstName = [], lastName = [], email = [], password = [],
                              hospital_name = [], hospital_select = [],
                              license_number = [], specialization = ''General Dentist'',
                              scheduleMode = ''continuous'', workMinutes = [],
                              breakMinutes = [] \<rparr> \<rparr>,
       localStorage = ls, route = r, effects = [], inflight = 0 \<rparr>"

definition ds_setLoading :: "bool \<Rightarrow> ds_state world \<Rightarrow> ds_state world" where
  "ds_setLoading b w = w\<lparr> ui := (ui w)\<lparr> ds_loading := b \<rparr> \<rparr>"

definition ds_setError :: "string \<Rightarrow> ds_state world \<Rightarrow> ds_state world" where
  "ds_setError m w = w\<lparr> ui := (ui w)\<lparr> ds_error := m \<rparr> \<rparr>"

definition setFileName :: "string \<Rightarrow> ds_state world \<Rightarrow> ds_state world" where
  "setFileName n w = w\<lparr> ui := (ui w)\<lparr> ds_fileName := Some n \<rparr> \<rparr>"

definition setIsCustomHospital :: "bool \<Rightarrow> ds_state world \<Rightarrow> ds_state world" where
  "setIsCustomHospital b w = w\<lparr> ui := (ui w)\<lparr> ds_isCustomHospital := b \<rparr> \<rparr>"

definition setFormData :: "(formData \<Rightarrow> formData) \<Rightarrow> ds_state world \<Rightarrow> ds_state world" where
  "setFormData f w = w\<lparr> ui := (ui w)\<lparr> ds_formData := f (ds_formData (ui w)) \<rparr> \<rparr>"

subsection \<open>Handlers\<close>

text \<open>
  \<open>{ ...prev, [name]: value }\<close>: the field called \<open>name\<close> is replaced. A name that is
  no field of \<open>formData\<close> would add a property that nothing reads; the record is left as
  it is.
\<close>

definition set_field :: "string \<Rightarrow> string \<Rightarrow> formData \<Rightarrow> formData" where
  "set_field name v prev =
     (if name = ''firstName'' then prev\<lparr> firstName := v \<rparr>
      else if name = ''lastName'' then prev\<lparr> lastName := v \<rparr>
      else if name = ''email'' then prev\<lparr> email := v \<rparr>
      else if name = ''password'' then prev\<lparr> password := v \<rparr>
      else if name = ''hospital_name'' then prev\<lparr> hospital_name := v \<rparr>
      else if name = ''hospital_select'' then prev\<lparr> hospital_select := v \<rparr>
      else if name = ''license_number'' then prev\<lparr> license_number := v \<rparr>
      else if name = ''specialization'' then prev\<lparr> specialization := v \<rparr>
      else if name = ''scheduleMode'' then prev\<lparr> scheduleMode := v \<rparr>
      else if name = ''workMinutes'' then prev\<lparr> workMinutes := v \<rparr>
      else if name = ''breakMinutes'' then prev\<lparr> breakMinutes := v \<rparr>
      else prev)"

text \<open>\<open>handleChange\<close>, given \<open>e.target.name\<close> and \<open>e.target.value\<close>.\<close>

definition handleChange :: "string \<Rightarrow> string \<Rightarrow> ds_state world \<Rightarrow> ds_state world" where
  "handleChange name v w = setFormData (set_field name v) w"

text \<open>
  \<open>handleFileChange\<close>, given the name of \<open>e.target.files[0]\<close> when there is such a
  file.
\<close>

definition handleFileChange :: "string option \<Rightarrow> ds_state world \<Rightarrow> ds_state world" where
  "handleFileChange file w = (case file of None \<Rightarrow> w | Some n \<Rightarrow> setFileName n w)"

definition toggleHospitalMode :: "ds_state world \<Rightarrow> ds_state world" where
  "toggleHospitalMode w =
     setFormData (\<lambda>prev. prev\<lparr> hospital_name := [], hospital_select := [] \<rparr>)
       (setIsCustomHospital (\<not> ds_isCustomHospital (ui w)) w)"

text \<open>
  \<open>const finalHospital = isCustomHospital ? formData.hospital_name :
  formData.hospital_select\<close>
\<close>

definition finalHospital :: "ds_state \<Rightarrow> string" where
  "finalHospital s =
     (if ds_isCustomHospital s then hospital_name (ds_formData s)
      else hospital_select (ds_formData s))"

text \<open>
  \<open>formData.workMinutes ? parseInt(formData.workMinutes) : null\<close>: the empty string is
  the only falsy string.
\<close>

definition duration :: "string \<Rightarrow> js_value" where
  "duration minutes = (if minutes \<noteq> [] then JNumber (parseInt minutes) else JNull)"

text \<open>The object literal \<open>payload\<close>.\<close>

definition payload :: "ds_state \<Rightarrow> js_value" where
  "payload s =
     (let fd = ds_formData s
      in JObject
           [(''email'', JString (email fd)),
            (''password'', JString (password fd)),
            (''full_name'', JString (firstName fd @ '' '' @ lastName fd)),
            (''role'', JString ''doctor''),
            (''hospital_name'', JString (finalHospital s)),
            (''specialization'', JString (specialization fd)),
            (''license_number'', JString (license_number fd)),
            (''scheduling_config'',
               JObject [(''mode'', JString (scheduleMode fd)),
                        (''work_duration'', duration (workMinutes fd)),
                        (''break_duration'', duration (breakMinutes fd))]),
            (''kyc_document_name'',
               JString (case ds_fileName s of
                          None \<Rightarrow> ''pending_upload''
                        | Some n \<Rightarrow> (if n = [] then ''pending_upload'' else n)))])"

text \<open>The two checks of the "Validation Logic" block, in the order the handler makes them.\<close>

definition hospital_missing :: "ds_state \<Rightarrow> bool" where
  "hospital_missing s = (finalHospital s = [])"

definition durations_missing :: "ds_state \<Rightarrow> bool" where
  "durations_missing s =
     (scheduleMode (ds_formData s) = ''interleaved'' \<and>
      (workMinutes (ds_formData s) = [] \<or> breakMinutes (ds_formData s) = []))"

text \<open>
  \<open>handleRegister\<close> up to its \<open>await\<close>: \<open>setLoading(true)\<close>, \<open>setError("")\<close>, the two
  checks with their early \<open>return\<close>, then \<open>api.post("/register", payload)\<close>.
\<close>

definition handleRegister_submit :: "ds_state world \<Rightarrow> ds_state world" where
  "handleRegister_submit w =
     (let w1 = ds_setError [] (ds_setLoading True w)
      in if hospital_missing (ui w)
         then ds_setLoading False
                (ds_setError ''Please select or enter a valid hospital name.'' w1)
         else if durations_missing (ui w)
         then ds_setLoading False
                (ds_setError
                   ''Please define both work and break durations for interleaved schedules.'' w1)
         else await_call (ApiPost ''/register'' (payload (ui w))) w1)"

text \<open>
  \<open>err.response.data\<close> of a rejection that has a response: absent (\<open>null\<close> or
  \<open>undefined\<close>), or an object, carrying \<open>detail\<close> when it has one.
\<close>

datatype response_data = NoData | Data "string option"

text \<open>
  How the awaited \<open>api.post\<close> settles: resolved, rejected with \<open>err.response\<close> present, or
  rejected without a response.
\<close>

datatype post_outcome =
    PostResolved
  | PostRejectedResponse response_data
  | PostRejectedNoResponse

definition handleRegister_finally :: "ds_state world \<Rightarrow> ds_state world" where
  "handleRegister_finally w = ds_setLoading False (call_settled w)"

text \<open>
  \<open>handleRegister\<close> from the point where the awaited call settles: the redirect, or the
  \<open>catch\<close> block; the \<open>finally\<close> block runs on every path. With \<open>err.response.data\<close>
  absent, reading \<open>err.response.data.detail\<close> throws inside the \<open>catch\<close> block, after
  \<open>console.error\<close> and before \<open>setError\<close>: the error state is not set, and the
  \<open>finally\<close> block still runs.
\<close>

definition handleRegister_settle :: "post_outcome \<Rightarrow> ds_state world \<Rightarrow> ds_state world" where
  "handleRegister_settle outcome w =
     (case outcome of
        PostResolved \<Rightarrow> handleRegister_finally (router_push ''/auth/doctor/login'' w)
      | PostRejectedResponse NoData \<Rightarrow> handleRegister_finally (console_error w)
      | PostRejectedResponse (Data detail) \<Rightarrow>
          handleRegister_finally
            (ds_setError
               (case detail of
                  None \<Rightarrow> ''Registration failed. Please check your details.''
                | Some d \<Rightarrow>
                    (if d = [] then ''Registration failed. Please check your details.'' else d))
               (console_error w))
      | PostRejectedNoResponse \<Rightarrow>
          handleRegister_finally
            (ds_setError ''Network error. Server unavailable.'' (console_error w)))"

text \<open>
  One submission from start to finish, nothing else happening in between. When a check
  fails the handler has returned already and no call is there to settle.
\<close>

definition handleRegister :: "post_outcome \<Rightarrow> ds_state world \<Rightarrow> ds_state world" where
  "handleRegister outcome w =
     (if hospital_missing (ui w) \<or> durations_missing (ui w) then handleRegister_submit w
      else handleRegister_settle outcome (handleRegister_submit w))"

text \<open>\<open>disabled={loading}\<close> on the submit button.\<close>

definition ds_submit_disabled :: "ds_state world \<Rightarrow> bool" where
  "ds_submit_disabled w = ds_loading (ui w)"

text \<open>
  The inputs of the rendered form, by \<open>name\<close>: the hospital dropdown or the hospital
  text input, whichever \<open>isCustomHospital\<close> selects, and the break input only in
  interleaved mode.
\<close>

definition rendered :: "ds_state \<Rightarrow> string \<Rightarrow> bool" where
  "rendered s name =
     (name \<in> set [''firstName'', ''lastName'', ''email'', ''password'', ''license_number'',
                   ''scheduleMode'', ''workMinutes'']
      \<or> (name = ''hospital_select'' \<and> \<not> ds_isCustomHospital s)
      \<or> (name = ''hospital_name'' \<and> ds_isCustomHospital s)
      \<or> (name = ''breakMinutes'' \<and> scheduleMode (ds_formData s) = ''interleaved''))"

text \<open>
  The events of the page: a change of an input (only a rendered input can change), a
  file selection, a click on the hospital mode toggle, submitting the form (a disabled
  submit button submits nothing), and the awaited call settling (only a call that is in
  flight can settle).
\<close>

datatype ds_event =
    ChangeField string string
  | ChangeFile "string option"
  | ClickToggleHospital
  | SubmitRegister
  | SettleRegister post_outcome

fun ds_step :: "ds_state world \<Rightarrow> ds_event \<Rightarrow> ds_state world" where
  "ds_step w (ChangeField name v) = (if rendered (ui w) name then handleChange name v w else w)"
| "ds_step w (ChangeFile file) = handleFileChange file w"
| "ds_step w ClickToggleHospital = toggleHospitalMode w"
| "ds_step w SubmitRegister =
     (if Button_submits (ds_submit_disabled w) then handleRegister_submit w else w)"
| "ds_step w (SettleRegister outcome) =
     (if inflight w = 0 then w else handleRegister_settle outcome w)"

definition ds_run :: "ds_state world \<Rightarrow> ds_event list \<Rightarrow> ds_state world" where
  "ds_run w evs = foldl ds_step w evs"

subsection \<open>Reading the request body\<close>


text \<open>A non-empty string of decimal digits, and the number it denotes.\<close>

definition is_decimal :: "string \<Rightarrow> bool" where
  "is_decimal s = (s \<noteq> [] \<and> list_all (is_radix_digit 10) s)"

definition decimal_value :: "string \<Rightarrow> int" where
  "decimal_value s = int (digits_value 10 s)"

text \<open>
  The number a text denotes in the notation of a number input: an optional minus sign,
  digits, an optional fraction (a point and digits), an optional exponent (\<open>e\<close> or
  \<open>E\<close>, an optional sign, digits); at least one digit before the exponent. \<open>None\<close> for
  a text that is no such numeral.
\<close>

definition number_of_text :: "string \<Rightarrow> rat option" where
  "number_of_text t =
     (let neg = (t \<noteq> [] \<and> hd t = CHR ''-'');
          t1 = (if neg then tl t else t);
          ip = takeWhile (is_radix_digit 10) t1;
          t2 = dropWhile (is_radix_digit 10) t1;
          has_frac = (t2 \<noteq> [] \<and> hd t2 = CHR ''.'');
          fp = (if has_frac then takeWhile (is_radix_digit 10) (tl t2) else []);
          t3 = (if has_frac then dropWhile (is_radix_digit 10) (tl t2) else t2);
          has_exp = (t3 \<noteq> [] \<and> (hd t3 = CHR ''e'' \<or> hd t3 = CHR ''E''));
          t4 = (if has_exp then tl t3 else []);
          eneg = (t4 \<noteq> [] \<and> hd t4 = CHR ''-'');
          ex = (if t4 \<noteq> [] \<and> (hd t4 = CHR ''+'' \<or> hd t4 = CHR ''-'') then tl t4 else t4);
          well_formed =
            ((ip \<noteq> [] \<or> fp \<noteq> []) \<and> (if has_frac then fp \<noteq> [] else True) \<and>
             (if has_exp then is_decimal ex else t3 = []));
          mantissa =
            rat_of_nat (digits_value 10 ip) + rat_of_nat (digits_value 10 fp) / 10 ^ length fp;
          scale =
            (if has_exp
             then (if eneg then 1 / 10 ^ digits_value 10 ex else 10 ^ digits_value 10 ex)
             else 1)
      in if well_formed then Some ((if neg then - 1 else 1) * mantissa * scale) else None)"

text \<open>
  The specification's wording, for comparison with \<open>payload\<close>: a minute input is
  forwarded verbatim when the request body carries the value of the form field as
  collected. Read in the body's favour, that is the field's text itself, or the number
  the text denotes, or \<open>null\<close> for a field left empty.
\<close>

definition carries_field :: "js_value option \<Rightarrow> string \<Rightarrow> bool" where
  "carries_field v t =
     (case v of
        Some (JString u) \<Rightarrow> u = t
      | Some (JNumber (Num n)) \<Rightarrow> number_of_text t = Some (rat_of_int n)
      | Some JNull \<Rightarrow> t = []
      | _ \<Rightarrow> False)"


subsection \<open>Example sessions\<close>

text \<open>
  Concrete sessions on the signup page, each from the freshly mounted page: the events
  a user produces, in order.
\<close>

text \<open>Interleaved mode chosen, nothing else filled in.\<close>

definition signup_interleaved_only :: "ds_state world" where
  "signup_interleaved_only =
     ds_run (DoctorSignup Map.empty ''/auth/doctor/signup'')
       [ChangeField ''scheduleMode'' ''interleaved'']"

text \<open>A listed hospital, interleaved mode, work minutes given, break minutes left empty.\<close>

definition signup_break_missing :: "ds_state world" where
  "signup_break_missing =
     ds_run (DoctorSignup Map.empty ''/auth/doctor/signup'')
       [ChangeField ''hospital_select'' ''Apex Dental Care'',
        ChangeField ''scheduleMode'' ''interleaved'',
        ChangeField ''workMinutes'' ''30'']"



text \<open>
  A listed hospital chosen, then the switch to manual entry and a hospital typed by
  hand; the last event is a change of the dropdown, which is not rendered any more.
\<close>

definition signup_custom_hospital :: "ds_state world" where
  "signup_custom_hospital =
     ds_run (DoctorSignup Map.empty ''/auth/doctor/signup'')
       [ChangeField ''hospital_select'' ''City Smile Hospital'',
        ClickToggleHospital,
        ChangeField ''hospital_name'' ''Lakeside Dental'',
        ChangeField ''hospital_select'' ''City Smile Hospital'']"

text \<open>The login form submitted, the call not settled yet.\<close>

definition login_in_flight :: "dl_state world" where
  "login_in_flight =
     dl_run (DoctorLogin Map.empty ''/auth/doctor/login'')
       [ChangeEmail ''dr@clinic.org'', ChangePassword ''secret'', SubmitLogin]"

text \<open>The signup form submitted with a listed hospital, the call not settled yet.\<close>

definition signup_in_flight :: "ds_state world" where
  "signup_in_flight =
     ds_run (DoctorSignup Map.empty ''/auth/doctor/signup'')
       [ChangeField ''hospital_select'' ''Apex Dental Care'', SubmitRegister]"

section \<open>Verified properties\<close>

subsection \<open>Unfolding\<close>

lemmas lp_defs = setAddress_def setPincode_def onChange_def emit_def handleDetectLocation_def

lemmas env_defs = setItem_def router_push_def console_error_def await_call_def call_settled_def

lemmas dl_defs = handleLogin_def handleLogin_submit_def handleLogin_settle_def
  handleLogin_finally_def dl_setError_def dl_setLoading_def setEmail_def setPassword_def

subsection \<open>LocationPicker\<close>

text \<open>
  C4. Whatever the address and pincode fields hold, the detect-location action sets the
  two fields to \<open>"123 Detected St, Tech Park"\<close> and \<open>"500081"\<close> and calls \<open>onChange\<close>
  once, with exactly that pair; a second invocation leaves the same fields and makes the
  same call again.
\<close>

theorem detect_location_fixed_pair:
  "lp_ui (handleDetectLocation w) =
     \<lparr> lp_address = ''123 Detected St, Tech Park'', lp_pincode = ''500081'' \<rparr>
   \<and> lp_emitted (handleDetectLocation w) =
       lp_emitted w @ [\<lparr> address = ''123 Detected St, Tech Park'', pincode = ''500081'',
                         lat = None, lng = None \<rparr>]
   \<and> lp_ui (handleDetectLocation (handleDetectLocation w)) = lp_ui (handleDetectLocation w)
   \<and> lp_emitted (handleDetectLocation (handleDetectLocation w)) =
       lp_emitted (handleDetectLocation w) @
         [\<lparr> address = ''123 Detected St, Tech Park'', pincode = ''500081'',
            lat = None, lng = None \<rparr>]"
  by (simp add: lp_defs)

theorem detect_location_fixed_pair_witness:
  "lp_ui (handleDetectLocation
            \<lparr> lp_ui = \<lparr> lp_address = ''9 Old Road'', lp_pincode = ''110001'' \<rparr>,
              lp_emitted = [] \<rparr>) =
     \<lparr> lp_address = ''123 Detected St, Tech Park'', lp_pincode = ''500081'' \<rparr>
   \<and> lp_emitted (handleDetectLocation
            \<lparr> lp_ui = \<lparr> lp_address = ''9 Old Road'', lp_pincode = ''110001'' \<rparr>,
              lp_emitted = [] \<rparr>) =
       [\<lparr> address = ''123 Detected St, Tech Park'', pincode = ''500081'',
          lat = None, lng = None \<rparr>]"
  using detect_location_fixed_pair
          [of "\<lparr> lp_ui = \<lparr> lp_address = ''9 Old Road'', lp_pincode = ''110001'' \<rparr>,
                 lp_emitted = [] \<rparr>"]
  by simp

text \<open>
  C5. When either input loses focus, \<open>onChange\<close> is called once with a record whose
  address and pincode are the current values of the two state variables, and the state
  is left as it is. In particular an address and a pincode that were typed and then
  blurred are emitted as typed.
\<close>

theorem blur_emits_current_fields:
  "lp_step w BlurAddress =
     w\<lparr> lp_emitted := lp_emitted w @
          [\<lparr> address = lp_address (lp_ui w), pincode = lp_pincode (lp_ui w),
             lat = None, lng = None \<rparr>] \<rparr>
   \<and> lp_step w BlurPincode =
     w\<lparr> lp_emitted := lp_emitted w @
          [\<lparr> address = lp_address (lp_ui w), pincode = lp_pincode (lp_ui w),
             lat = None, lng = None \<rparr>] \<rparr>
   \<and> lp_emitted (lp_run w [ChangeAddress a, ChangePincode p, BlurPincode]) =
       lp_emitted w @ [\<lparr> address = a, pincode = p, lat = None, lng = None \<rparr>]
   \<and> lp_emitted (lp_run w [ChangePincode p, ChangeAddress a, BlurAddress]) =
       lp_emitted w @ [\<lparr> address = a, pincode = p, lat = None, lng = None \<rparr>]"
  by (simp add: lp_defs lp_run_def)

theorem blur_emits_current_fields_witness:
  "lp_emitted (lp_run (LocationPicker None)
                 [ChangeAddress ''4 Hill View'', ChangePincode ''560001'', BlurPincode]) =
     [\<lparr> address = ''4 Hill View'', pincode = ''560001'', lat = None, lng = None \<rparr>]"
  using blur_emits_current_fields [of "LocationPicker None" "''4 Hill View''" "''560001''"]
  by (simp add: LocationPicker_def)

text \<open>
  The pincode bound is kept by every event whose delivered value is within
  \<open>maxLength\<close>.
\<close>

lemma lp_step_pincode_bound:
  assumes "length (lp_pincode (lp_ui w)) \<le> pincode_maxLength"
      and "within_maxLength ev"
  shows "length (lp_pincode (lp_ui (lp_step w ev))) \<le> pincode_maxLength"
  using assms by (cases ev) (simp_all add: lp_defs pincode_maxLength_def Input_delivers_def)

text \<open>
  C7, as the code has it. The component stores the pincode of \<open>initialData\<close> as given,
  and \<open>maxLength\<close> limits only what the user types. When the pincode the component
  starts with has at most 6 characters, then after any sequence of events in which every
  change of the pincode input delivers a value of at most 6 characters (address edits,
  blurs and detect clicks are unrestricted) the pincode has at most 6 characters.
\<close>

theorem pincode_within_maxLength:
  assumes "length (lp_pincode (lp_ui w)) \<le> pincode_maxLength"
      and "\<forall>ev \<in> set evs. within_maxLength ev"
  shows "length (lp_pincode (lp_ui (lp_run w evs))) \<le> 6"
proof -
  have "length (lp_pincode (lp_ui (foldl lp_step w evs))) \<le> pincode_maxLength"
    using assms
  proof (induction evs arbitrary: w)
    case Nil
    then show ?case by simp
  next
    case (Cons ev evs)
    have "length (lp_pincode (lp_ui (lp_step w ev))) \<le> pincode_maxLength"
      using Cons.prems by (simp add: lp_step_pincode_bound)
    then show ?case using Cons.IH Cons.prems by simp
  qed
  then show ?thesis by (simp add: lp_run_def pincode_maxLength_def)
qed

theorem pincode_within_maxLength_witness:
  "length (lp_pincode (lp_ui (LocationPicker (Some
       \<lparr> init_address = Some ''4 Hill View'', init_pincode = Some ''5600'',
         init_lat = None, init_lng = None \<rparr>)))) \<le> pincode_maxLength
   \<and> list_all within_maxLength
         [ChangePincode ''56000'', ChangePincode ''560001'', BlurPincode,
          ClickDetect, ChangeAddress ''12 Lake Side Avenue'']
   \<and> length (lp_pincode (lp_ui (lp_run (LocationPicker (Some
       \<lparr> init_address = Some ''4 Hill View'', init_pincode = Some ''5600'',
         init_lat = None, init_lng = None \<rparr>))
       [ChangePincode ''56000'', ChangePincode ''560001'', BlurPincode,
        ClickDetect, ChangeAddress ''12 Lake Side Avenue'']))) \<le> 6"
proof -
  have h1: "length (lp_pincode (lp_ui (LocationPicker (Some
       \<lparr> init_address = Some ''4 Hill View'', init_pincode = Some ''5600'',
         init_lat = None, init_lng = None \<rparr>)))) \<le> pincode_maxLength"
    by (simp add: LocationPicker_def or_empty_def pincode_maxLength_def)
  have h2: "\<forall>ev \<in> set [ChangePincode ''56000'', ChangePincode ''560001'', BlurPincode,
                   ClickDetect, ChangeAddress ''12 Lake Side Avenue''].
        within_maxLength ev"
    by (simp add: pincode_maxLength_def Input_delivers_def)
  show ?thesis using h1 h2 pincode_within_maxLength [OF h1 h2] by (simp add: list_all_iff)
qed

text \<open>
  C7 as stated fails: seeded with a pincode of seven characters, the component holds
  seven characters before any keystroke, keeps them through typing into the address
  field, and emits them on blur.
\<close>

theorem pincode_seeded_too_long:
  "length (lp_pincode (lp_ui (lp_run (LocationPicker (Some
       \<lparr> init_address = None, init_pincode = Some ''1234567'',
         init_lat = None, init_lng = None \<rparr>)) []))) = 7
   \<and> lp_emitted (lp_run (LocationPicker (Some
       \<lparr> init_address = None, init_pincode = Some ''1234567'',
         init_lat = None, init_lng = None \<rparr>)) [ChangeAddress ''4 Hill View'', BlurAddress]) =
       [\<lparr> address = ''4 Hill View'', pincode = ''1234567'', lat = None, lng = None \<rparr>]"
  by (simp add: LocationPicker_def or_empty_def lp_run_def lp_defs)

subsection \<open>DoctorLogin\<close>

text \<open>
  C1. When the login call resolves with a role other than \<open>"doctor"\<close>, the error state
  is the access-denied message, nothing is written to local storage (neither
  \<open>token\<close> nor \<open>role\<close>) and nothing is navigated to: local storage and the route are
  what they were before the submission, and the only effect of the submission is the
  login call itself. The same holds when other events came between the submission and
  the response.
\<close>

theorem login_role_mismatch_denied:
  assumes "role data \<noteq> ''doctor''"
  shows "dl_error (ui (handleLogin (LoginResolved data) w)) =
           ''Access Denied: This portal is for Doctors only.''
       \<and> localStorage (handleLogin (LoginResolved data) w) = localStorage w
       \<and> route (handleLogin (LoginResolved data) w) = route w
       \<and> effects (handleLogin (LoginResolved data) w) =
           effects w @ [ApiLogin (dl_email (ui w)) (dl_password (ui w))]
       \<and> dl_error (ui (handleLogin_settle (LoginResolved data) w)) =
           ''Access Denied: This portal is for Doctors only.''
       \<and> localStorage (handleLogin_settle (LoginResolved data) w) = localStorage w
       \<and> route (handleLogin_settle (LoginResolved data) w) = route w
       \<and> effects (handleLogin_settle (LoginResolved data) w) = effects w"
  using assms by (simp add: dl_defs env_defs)

theorem login_role_mismatch_denied_witness:
  "role \<lparr> access_token = ''abc'', role = ''patient'' \<rparr> \<noteq> ''doctor''
   \<and> dl_error (ui (handleLogin (LoginResolved \<lparr> access_token = ''abc'', role = ''patient'' \<rparr>)
                      (DoctorLogin Map.empty ''/auth/doctor/login''))) =
       ''Access Denied: This portal is for Doctors only.''
   \<and> localStorage (handleLogin (LoginResolved \<lparr> access_token = ''abc'', role = ''patient'' \<rparr>)
                      (DoctorLogin Map.empty ''/auth/doctor/login'')) = Map.empty
   \<and> route (handleLogin (LoginResolved \<lparr> access_token = ''abc'', role = ''patient'' \<rparr>)
               (DoctorLogin Map.empty ''/auth/doctor/login'')) = ''/auth/doctor/login''"
proof -
  have h: "role \<lparr> access_token = ''abc'', role = ''patient'' \<rparr> \<noteq> ''doctor''"
    by simp
  show ?thesis
    using h login_role_mismatch_denied [OF h, of "DoctorLogin Map.empty ''/auth/doctor/login''"]
    by (simp add: DoctorLogin_def)
qed

text \<open>
  C6. When the login call resolves with the role \<open>"doctor"\<close>, the response's
  \<open>access_token\<close> is stored under the local-storage key \<open>token\<close> and its role under the
  key \<open>role\<close>, and after the two writes the page navigates to \<open>/doctor/dashboard\<close>.
\<close>

theorem login_doctor_stores_session_then_navigates:
  assumes "role data = ''doctor''"
  shows "localStorage (handleLogin (LoginResolved data) w) =
           (localStorage w)(''token'' \<mapsto> access_token data, ''role'' \<mapsto> role data)
       \<and> route (handleLogin (LoginResolved data) w) = ''/doctor/dashboard''
       \<and> effects (handleLogin (LoginResolved data) w) =
           effects w @ [ApiLogin (dl_email (ui w)) (dl_password (ui w)),
                        SetItem ''token'' (access_token data),
                        SetItem ''role'' (role data),
                        RouterPush ''/doctor/dashboard'']
       \<and> localStorage (handleLogin_settle (LoginResolved data) w) =
           (localStorage w)(''token'' \<mapsto> access_token data, ''role'' \<mapsto> role data)
       \<and> route (handleLogin_settle (LoginResolved data) w) = ''/doctor/dashboard''
       \<and> effects (handleLogin_settle (LoginResolved data) w) =
           effects w @ [SetItem ''token'' (access_token data),
                        SetItem ''role'' (role data),
                        RouterPush ''/doctor/dashboard'']"
  using assms by (simp add: dl_defs env_defs)

theorem login_doctor_stores_session_then_navigates_witness:
  "role \<lparr> access_token = ''abc'', role = ''doctor'' \<rparr> = ''doctor''
   \<and> localStorage (handleLogin (LoginResolved \<lparr> access_token = ''abc'', role = ''doctor'' \<rparr>)
                      (DoctorLogin Map.empty ''/auth/doctor/login'')) ''token'' = Some ''abc''
   \<and> localStorage (handleLogin (LoginResolved \<lparr> access_token = ''abc'', role = ''doctor'' \<rparr>)
                      (DoctorLogin Map.empty ''/auth/doctor/login'')) ''role'' = Some ''doctor''
   \<and> route (handleLogin (LoginResolved \<lparr> access_token = ''abc'', role = ''doctor'' \<rparr>)
               (DoctorLogin Map.empty ''/auth/doctor/login'')) = ''/doctor/dashboard''"
proof -
  have h: "role \<lparr> access_token = ''abc'', role = ''doctor'' \<rparr> = ''doctor''"
    by simp
  show ?thesis
    using h login_doctor_stores_session_then_navigates
              [OF h, of "DoctorLogin Map.empty ''/auth/doctor/login''"]
    by (simp add: DoctorLogin_def)
qed

subsection \<open>DoctorSignup: local validation\<close>

lemmas ds_defs = handleRegister_def handleRegister_submit_def handleRegister_settle_def
  handleRegister_finally_def ds_setError_def ds_setLoading_def setFileName_def
  setIsCustomHospital_def setFormData_def handleChange_def handleFileChange_def
  toggleHospitalMode_def Let_def

lemmas eval_defs = ds_run_def DoctorSignup_def rendered_def set_field_def
  hospital_missing_def durations_missing_def finalHospital_def

text \<open>The example sessions, evaluated.\<close>

lemma signup_interleaved_only_eq:
  "signup_interleaved_only =
     \<lparr> ui = \<lparr> ds_loading = False, ds_error = [], ds_fileName = None,
              ds_isCustomHospital = False,
              ds_formData = \<lparr> firstName = [], lastName = [], email = [], password = [],
                              hospital_name = [], hospital_select = [],
                              license_number = [], specialization = ''General Dentist'',
                              scheduleMode = ''interleaved'', workMinutes = [],
                              breakMinutes = [] \<rparr> \<rparr>,
       localStorage = Map.empty, route = ''/auth/doctor/signup'', effects = [], inflight = 0 \<rparr>"
  by (simp add: signup_interleaved_only_def eval_defs ds_defs)

lemma signup_break_missing_eq:
  "signup_break_missing =
     \<lparr> ui = \<lparr> ds_loading = False, ds_error = [], ds_fileName = None,
              ds_isCustomHospital = False,
              ds_formData = \<lparr> firstName = [], lastName = [], email = [], password = [],
                              hospital_name = [], hospital_select = ''Apex Dental Care'',
                              license_number = [], specialization = ''General Dentist'',
                              scheduleMode = ''interleaved'', workMinutes = ''30'',
                              breakMinutes = [] \<rparr> \<rparr>,
       localStorage = Map.empty, route = ''/auth/doctor/signup'', effects = [], inflight = 0 \<rparr>"
  by (simp add: signup_break_missing_def eval_defs ds_defs)



text \<open>
  C3. When the effective hospital is empty (\<open>hospital_name\<close> in custom mode,
  \<open>hospital_select\<close> otherwise), submission sets the error to the hospital-required
  message, makes no network call and leaves \<open>loading\<close> false.
\<close>

theorem signup_hospital_required:
  assumes "(ds_isCustomHospital (ui w) \<and> hospital_name (ds_formData (ui w)) = [])
         \<or> (\<not> ds_isCustomHospital (ui w) \<and> hospital_select (ds_formData (ui w)) = [])"
  shows "ds_error (ui (handleRegister outcome w)) =
           ''Please select or enter a valid hospital name.''
       \<and> effects (handleRegister outcome w) = effects w
       \<and> inflight (handleRegister outcome w) = inflight w
       \<and> \<not> ds_loading (ui (handleRegister outcome w))"
  using assms by (auto simp add: ds_defs hospital_missing_def finalHospital_def)

theorem signup_hospital_required_witness:
  "hospital_select (ds_formData (ui signup_interleaved_only)) = []
   \<and> ds_error (ui (handleRegister PostResolved signup_interleaved_only)) =
       ''Please select or enter a valid hospital name.''
   \<and> effects (handleRegister PostResolved signup_interleaved_only) = []
   \<and> \<not> ds_loading (ui (handleRegister PostResolved signup_interleaved_only))"
proof -
  have h: "(ds_isCustomHospital (ui signup_interleaved_only)
              \<and> hospital_name (ds_formData (ui signup_interleaved_only)) = [])
         \<or> (\<not> ds_isCustomHospital (ui signup_interleaved_only)
              \<and> hospital_select (ds_formData (ui signup_interleaved_only)) = [])"
    by (simp add: signup_interleaved_only_eq)
  show ?thesis
    using signup_hospital_required [OF h, of PostResolved]
    by (simp add: signup_interleaved_only_eq)
qed

text \<open>
  C2, as the code has it. In interleaved mode with \<open>workMinutes\<close> or \<open>breakMinutes\<close>
  empty, submission makes no network call and leaves \<open>loading\<close> false; the error is
  the duration-required message when the effective hospital is non-empty. The hospital
  check comes first: with the effective hospital empty as well, the error is the
  hospital-required message.
\<close>

theorem signup_durations_required:
  assumes "scheduleMode (ds_formData (ui w)) = ''interleaved''"
      and "workMinutes (ds_formData (ui w)) = [] \<or> breakMinutes (ds_formData (ui w)) = []"
  shows "effects (handleRegister outcome w) = effects w
       \<and> inflight (handleRegister outcome w) = inflight w
       \<and> \<not> ds_loading (ui (handleRegister outcome w))
       \<and> ds_error (ui (handleRegister outcome w)) =
           (if finalHospital (ui w) = []
            then ''Please select or enter a valid hospital name.''
            else ''Please define both work and break durations for interleaved schedules.'')"
  using assms by (auto simp add: ds_defs hospital_missing_def durations_missing_def)

theorem signup_durations_required_witness:
  "scheduleMode (ds_formData (ui signup_break_missing)) = ''interleaved''
   \<and> breakMinutes (ds_formData (ui signup_break_missing)) = []
   \<and> finalHospital (ui signup_break_missing) = ''Apex Dental Care''
   \<and> ds_error (ui (handleRegister PostResolved signup_break_missing)) =
       ''Please define both work and break durations for interleaved schedules.''
   \<and> effects (handleRegister PostResolved signup_break_missing) = []
   \<and> \<not> ds_loading (ui (handleRegister PostResolved signup_break_missing))"
proof -
  have h1: "scheduleMode (ds_formData (ui signup_break_missing)) = ''interleaved''"
    by (simp add: signup_break_missing_eq)
  have h2: "workMinutes (ds_formData (ui signup_break_missing)) = []
          \<or> breakMinutes (ds_formData (ui signup_break_missing)) = []"
    by (simp add: signup_break_missing_eq)
  show ?thesis
    using signup_durations_required [OF h1 h2, of PostResolved]
    by (simp add: signup_break_missing_eq finalHospital_def)
qed

text \<open>
  C2 as stated fails: in interleaved mode with both durations empty and no hospital
  chosen, the error shown is the hospital-required message, not the duration-required
  one.
\<close>

theorem signup_durations_hidden_by_hospital:
  "scheduleMode (ds_formData (ui signup_interleaved_only)) = ''interleaved''
   \<and> workMinutes (ds_formData (ui signup_interleaved_only)) = []
   \<and> breakMinutes (ds_formData (ui signup_interleaved_only)) = []
   \<and> ds_error (ui (handleRegister PostResolved signup_interleaved_only)) =
       ''Please select or enter a valid hospital name.''
   \<and> ds_error (ui (handleRegister PostResolved signup_interleaved_only)) \<noteq>
       ''Please define both work and break durations for interleaved schedules.''"
  by (simp add: signup_interleaved_only_eq ds_defs hospital_missing_def finalHospital_def)

subsection \<open>DoctorSignup: the request body\<close>

text \<open>\<open>parseInt\<close> reads a string of decimal digits as the number it denotes.\<close>

lemma decimal_digit_not_whitespace: "is_radix_digit 10 c \<Longrightarrow> \<not> is_js_whitespace c"
  by (auto simp add: is_radix_digit_def digit_value_def is_js_whitespace_def Let_def
        split: if_splits)

lemma decimal_digit_not_sign_or_x:
  "is_radix_digit 10 c \<Longrightarrow>
     c \<noteq> CHR ''+'' \<and> c \<noteq> CHR ''-'' \<and> c \<noteq> CHR ''x'' \<and> c \<noteq> CHR ''X''"
  by (auto simp add: is_radix_digit_def digit_value_def Let_def split: if_splits)

lemma decimal_no_hex_prefix:
  assumes "list_all (is_radix_digit 10) s"
  shows "take 2 s \<noteq> ''0x'' \<and> take 2 s \<noteq> ''0X''"
proof (cases s)
  case Nil
  then show ?thesis by simp
next
  case outer: (Cons a t)
  show ?thesis
  proof (cases t)
    case Nil
    with outer show ?thesis by simp
  next
    case (Cons b u)
    with outer assms have "is_radix_digit 10 b" by simp
    then have "b \<noteq> CHR ''x'' \<and> b \<noteq> CHR ''X''"
      using decimal_digit_not_sign_or_x by blast
    with Cons outer show ?thesis by simp
  qed
qed

lemma parseInt_decimal:
  assumes "is_decimal s"
  shows "parseInt s = to_number (decimal_value s)"
proof -
  from assms obtain c t where s: "s = c # t" and all: "list_all (is_radix_digit 10) s"
    by (cases s) (auto simp add: is_decimal_def)
  have c: "is_radix_digit 10 c" using s all by simp
  have ws: "dropWhile is_js_whitespace s = s"
    using s c decimal_digit_not_whitespace by simp
  have sg: "hd s \<noteq> CHR ''+'' \<and> hd s \<noteq> CHR ''-''"
    using s c decimal_digit_not_sign_or_x by simp
  have hx: "take 2 s \<noteq> ''0x'' \<and> take 2 s \<noteq> ''0X''"
    using all by (rule decimal_no_hex_prefix)
  have tw: "takeWhile (is_radix_digit 10) s = s"
    using all by (simp add: list_all_iff)
  have ne: "s \<noteq> []" using s by simp
  from sg hx ne show ?thesis
    by (simp add: parseInt_def Let_def ws tw decimal_value_def)
qed

text \<open>A string of \<open>n\<close> decimal digits denotes a number below \<open>10 ^ n\<close>.\<close>

lemma digits_value_snoc:
  "digits_value R (ds @ [c]) =
     digits_value R ds * R + (case digit_value c of None \<Rightarrow> 0 | Some d \<Rightarrow> d)"
  by (simp add: digits_value_def)

lemma digits_value_bound:
  "list_all (is_radix_digit 10) s \<Longrightarrow> digits_value 10 s < 10 ^ length s"
proof (induction s rule: rev_induct)
  case Nil
  show ?case by (simp add: digits_value_def)
next
  case (snoc c s)
  from snoc.prems have all: "list_all (is_radix_digit 10) s" and c: "is_radix_digit 10 c"
    by simp_all
  from c obtain d where d: "digit_value c = Some d" "d < 10"
    by (auto simp add: is_radix_digit_def split: option.splits)
  have "Suc (digits_value 10 s) \<le> 10 ^ length s"
    using snoc.IH [OF all] by simp
  then have "Suc (digits_value 10 s) * 10 \<le> 10 ^ length s * 10"
    by (rule mult_le_mono1)
  with d show ?case
    by (simp add: digits_value_snoc)
qed

lemma decimal_value_exact:
  assumes "is_decimal s" and "length s \<le> 15"
  shows "to_number (decimal_value s) = Num (decimal_value s)"
proof -
  have "digits_value 10 s < 10 ^ length s"
    using assms(1) by (simp add: is_decimal_def digits_value_bound)
  also have "(10::nat) ^ length s \<le> 10 ^ 15"
    using assms(2) by (rule power_increasing) simp
  finally have "digits_value 10 s < 10 ^ 15" .
  then have "int (digits_value 10 s) < 2 ^ 53"
    by simp
  then show ?thesis
    by (simp add: to_number_def decimal_value_def)
qed




text \<open>
  The reading of "verbatim" is one the code meets on plain numerals: an empty field
  sent as \<open>null\<close> and a field of at most 15 decimal digits sent as its number both
  carry the field.
\<close>

lemma number_of_text_decimal:
  assumes "is_decimal t"
  shows "number_of_text t = Some (rat_of_int (decimal_value t))"
proof -
  from assms obtain c u where t: "t = c # u" and all: "list_all (is_radix_digit 10) t"
    by (cases t) (auto simp add: is_decimal_def)
  have c: "is_radix_digit 10 c" using t all by simp
  have sg: "hd t \<noteq> CHR ''-''"
    using t c decimal_digit_not_sign_or_x by simp
  have tw: "takeWhile (is_radix_digit 10) t = t"
    using all by (simp add: list_all_iff)
  have dw: "dropWhile (is_radix_digit 10) t = []"
    using all by (simp add: list_all_iff)
  have ne: "t \<noteq> []" using t by simp
  from sg ne all show ?thesis
    by (simp add: number_of_text_def Let_def tw dw decimal_value_def list_all_iff
          digits_value_def [of 10 "[]"])
qed

lemma duration_carries_plain_numeral:
  "carries_field (Some (duration [])) []
   \<and> (is_decimal t \<and> length t \<le> 15 \<longrightarrow> carries_field (Some (duration t)) t)"
  by (auto simp add: carries_field_def duration_def parseInt_decimal decimal_value_exact
        number_of_text_decimal is_decimal_def)




subsection \<open>The loading flag and the submit button\<close>

text \<open>
  One event keeps the gate: at most one call is in flight, and while one is, \<open>loading\<close>
  is true.
\<close>

lemma dl_step_gate:
  assumes "inflight w \<le> 1" and "0 < inflight w \<longrightarrow> dl_loading (ui w)"
  shows "inflight (dl_step w ev) \<le> 1
       \<and> (0 < inflight (dl_step w ev) \<longrightarrow> dl_loading (ui (dl_step w ev)))"
proof (cases ev)
  case (ChangeEmail v)
  then show ?thesis using assms by (simp add: setEmail_def)
next
  case (ChangePassword v)
  then show ?thesis using assms by (simp add: setPassword_def)
next
  case SubmitLogin
  then show ?thesis using assms
    by (auto simp add: dl_submit_disabled_def Button_submits_def handleLogin_submit_def Let_def dl_setError_def
          dl_setLoading_def await_call_def)
next
  case (SettleLogin outcome)
  then show ?thesis using assms
    by (auto simp add: handleLogin_settle_def handleLogin_finally_def dl_setError_def
          dl_setLoading_def env_defs split: login_outcome.splits)
qed

lemma dl_run_gate:
  "inflight (dl_run (DoctorLogin ls r) evs) \<le> 1
   \<and> (0 < inflight (dl_run (DoctorLogin ls r) evs) \<longrightarrow>
        dl_loading (ui (dl_run (DoctorLogin ls r) evs)))"
proof (induction evs rule: rev_induct)
  case Nil
  show ?case by (simp add: dl_run_def DoctorLogin_def)
next
  case (snoc ev evs)
  then show ?case
    using dl_step_gate [of "dl_run (DoctorLogin ls r) evs" ev] by (simp add: dl_run_def)
qed

lemma ds_step_gate:
  assumes "inflight w \<le> 1" and "0 < inflight w \<longrightarrow> ds_loading (ui w)"
  shows "inflight (ds_step w ev) \<le> 1
       \<and> (0 < inflight (ds_step w ev) \<longrightarrow> ds_loading (ui (ds_step w ev)))"
proof (cases ev)
  case (ChangeField name v)
  then show ?thesis using assms by (simp add: handleChange_def setFormData_def)
next
  case (ChangeFile f)
  then show ?thesis using assms
    by (simp add: handleFileChange_def setFileName_def split: option.splits)
next
  case ClickToggleHospital
  then show ?thesis using assms
    by (simp add: toggleHospitalMode_def setFormData_def setIsCustomHospital_def)
next
  case SubmitRegister
  then show ?thesis using assms
    by (auto simp add: ds_submit_disabled_def Button_submits_def handleRegister_submit_def Let_def
          ds_setError_def ds_setLoading_def await_call_def)
next
  case (SettleRegister outcome)
  then show ?thesis using assms
    by (auto simp add: handleRegister_settle_def handleRegister_finally_def ds_setError_def
          ds_setLoading_def env_defs split: post_outcome.splits response_data.splits)
qed

lemma ds_run_gate:
  "inflight (ds_run (DoctorSignup ls r) evs) \<le> 1
   \<and> (0 < inflight (ds_run (DoctorSignup ls r) evs) \<longrightarrow>
        ds_loading (ui (ds_run (DoctorSignup ls r) evs)))"
proof (induction evs rule: rev_induct)
  case Nil
  show ?case by (simp add: ds_run_def DoctorSignup_def)
next
  case (snoc ev evs)
  then show ?case
    using ds_step_gate [of "ds_run (DoctorSignup ls r) evs" ev] by (simp add: ds_run_def)
qed

lemma login_loading_flag:
  "dl_loading (ui (handleLogin_submit w)) \<and> \<not> dl_loading (ui (handleLogin_settle outcome w))"
  by (simp add: dl_defs env_defs Let_def split: login_outcome.splits)

lemma signup_loading_flag:
  "ds_loading (ui (handleRegister_submit v)) =
     (\<not> hospital_missing (ui v) \<and> \<not> durations_missing (ui v))
   \<and> inflight (handleRegister_submit v) =
       (if hospital_missing (ui v) \<or> durations_missing (ui v) then inflight v
        else Suc (inflight v))
   \<and> \<not> ds_loading (ui (handleRegister_settle outcome v))"
  by (simp add: ds_defs env_defs split: post_outcome.splits response_data.splits)

text \<open>
  C9. On both forms, in every state reached from the freshly mounted page, at most one
  network call is in flight, and while one is in flight \<open>loading\<close> is true, the submit
  button is disabled and a submission starts nothing. \<open>handleLogin\<close> sets \<open>loading\<close>
  when it starts its call and clears it however the call settles; \<open>handleRegister\<close>
  leaves \<open>loading\<close> false and starts no call when a check fails, sets it when it starts
  its call, and clears it however the call settles.
\<close>

theorem loading_gates_network_calls:
  fixes ls ls' :: "string \<rightharpoonup> string" and r r' :: string
    and evs :: "dl_event list" and evs' :: "ds_event list"
  defines "L \<equiv> dl_run (DoctorLogin ls r) evs"
      and "S \<equiv> ds_run (DoctorSignup ls' r') evs'"
  shows "inflight L \<le> 1
       \<and> (0 < inflight L \<longrightarrow>
            dl_loading (ui L) \<and> dl_submit_disabled L \<and> dl_step L SubmitLogin = L)
       \<and> inflight S \<le> 1
       \<and> (0 < inflight S \<longrightarrow>
            ds_loading (ui S) \<and> ds_submit_disabled S \<and> ds_step S SubmitRegister = S)
       \<and> dl_loading (ui (handleLogin_submit w))
       \<and> inflight (handleLogin_submit w) = Suc (inflight w)
       \<and> \<not> dl_loading (ui (handleLogin_settle outcome w))
       \<and> (hospital_missing (ui v) \<or> durations_missing (ui v) \<longrightarrow>
            \<not> ds_loading (ui (handleRegister_submit v))
            \<and> inflight (handleRegister_submit v) = inflight v)
       \<and> (\<not> hospital_missing (ui v) \<and> \<not> durations_missing (ui v) \<longrightarrow>
            ds_loading (ui (handleRegister_submit v))
            \<and> inflight (handleRegister_submit v) = Suc (inflight v))
       \<and> \<not> ds_loading (ui (handleRegister_settle outcome' v))"
proof -
  have gl: "inflight L \<le> 1 \<and> (0 < inflight L \<longrightarrow> dl_loading (ui L))"
    unfolding L_def by (rule dl_run_gate)
  have gs: "inflight S \<le> 1 \<and> (0 < inflight S \<longrightarrow> ds_loading (ui S))"
    unfolding S_def by (rule ds_run_gate)
  have nl: "dl_loading (ui L) \<Longrightarrow> dl_submit_disabled L \<and> dl_step L SubmitLogin = L"
    by (simp add: dl_submit_disabled_def Button_submits_def)
  have ns: "ds_loading (ui S) \<Longrightarrow> ds_submit_disabled S \<and> ds_step S SubmitRegister = S"
    by (simp add: ds_submit_disabled_def Button_submits_def)
  have cl: "inflight (handleLogin_submit w) = Suc (inflight w)"
    by (simp add: dl_defs env_defs Let_def)
  show ?thesis
    using gl gs nl ns cl login_loading_flag [of w outcome] signup_loading_flag [of v outcome']
    by auto
qed

lemma login_in_flight_eq:
  "login_in_flight =
     \<lparr> ui = \<lparr> dl_email = ''dr@clinic.org'', dl_password = ''secret'', dl_loading = True,
              dl_error = [] \<rparr>,
       localStorage = Map.empty, route = ''/auth/doctor/login'',
       effects = [ApiLogin ''dr@clinic.org'' ''secret''], inflight = 1 \<rparr>"
  by (simp add: login_in_flight_def dl_run_def DoctorLogin_def dl_submit_disabled_def Button_submits_def dl_defs
        env_defs Let_def)

lemma signup_in_flight_facts:
  "inflight signup_in_flight = 1 \<and> ds_loading (ui signup_in_flight)
   \<and> length (effects signup_in_flight) = 1"
  by (simp add: signup_in_flight_def eval_defs ds_defs ds_submit_disabled_def Button_submits_def await_call_def)

theorem loading_gates_network_calls_witness:
  "0 < inflight login_in_flight
   \<and> dl_loading (ui login_in_flight)
   \<and> dl_step login_in_flight SubmitLogin = login_in_flight
   \<and> 0 < inflight signup_in_flight
   \<and> ds_loading (ui signup_in_flight)
   \<and> ds_step signup_in_flight SubmitRegister = signup_in_flight"
proof -
  have h1: "0 < inflight login_in_flight"
    by (simp add: login_in_flight_eq)
  have h2: "0 < inflight signup_in_flight"
    by (simp add: signup_in_flight_facts)
  show ?thesis
    using h1 h2
      loading_gates_network_calls
        [where ls = Map.empty and r = "''/auth/doctor/login''"
           and evs = "[ChangeEmail ''dr@clinic.org'', ChangePassword ''secret'', SubmitLogin]"
           and ls' = Map.empty and r' = "''/auth/doctor/signup''"
           and evs' = "[ChangeField ''hospital_select'' ''Apex Dental Care'', SubmitRegister]"
           and w = login_in_flight and v = signup_in_flight
           and outcome = LoginRejected and outcome' = PostResolved]
    unfolding login_in_flight_def [symmetric] signup_in_flight_def [symmetric]
    by blast
qed

subsection \<open>DoctorSignup: the two hospital fields\<close>

text \<open>
  One event keeps the hospital field of the mode that is not shown empty.
\<close>

lemma ds_step_hospital:
  assumes "ds_isCustomHospital (ui w) \<longrightarrow> hospital_select (ds_formData (ui w)) = []"
      and "\<not> ds_isCustomHospital (ui w) \<longrightarrow> hospital_name (ds_formData (ui w)) = []"
  shows "(ds_isCustomHospital (ui (ds_step w ev)) \<longrightarrow>
            hospital_select (ds_formData (ui (ds_step w ev))) = [])
       \<and> (\<not> ds_isCustomHospital (ui (ds_step w ev)) \<longrightarrow>
            hospital_name (ds_formData (ui (ds_step w ev))) = [])"
proof (cases ev)
  case (ChangeField name v)
  then show ?thesis using assms
    by (auto simp add: handleChange_def setFormData_def rendered_def set_field_def)
next
  case (ChangeFile f)
  then show ?thesis using assms
    by (simp add: handleFileChange_def setFileName_def split: option.splits)
next
  case ClickToggleHospital
  then show ?thesis
    by (simp add: toggleHospitalMode_def setFormData_def setIsCustomHospital_def)
next
  case SubmitRegister
  then show ?thesis using assms
    by (simp add: handleRegister_submit_def Let_def ds_setError_def ds_setLoading_def
          await_call_def)
next
  case (SettleRegister outcome)
  then show ?thesis using assms
    by (simp add: handleRegister_settle_def handleRegister_finally_def ds_setError_def
          ds_setLoading_def env_defs split: post_outcome.splits response_data.splits)
qed

lemma ds_run_hospital:
  "(ds_isCustomHospital (ui (ds_run (DoctorSignup ls r) evs)) \<longrightarrow>
      hospital_select (ds_formData (ui (ds_run (DoctorSignup ls r) evs))) = [])
   \<and> (\<not> ds_isCustomHospital (ui (ds_run (DoctorSignup ls r) evs)) \<longrightarrow>
      hospital_name (ds_formData (ui (ds_run (DoctorSignup ls r) evs))) = [])"
proof (induction evs rule: rev_induct)
  case Nil
  show ?case by (simp add: ds_run_def DoctorSignup_def)
next
  case (snoc ev evs)
  then show ?case
    using ds_step_hospital [of "ds_run (DoctorSignup ls r) evs" ev] by (simp add: ds_run_def)
qed

lemma hospital_inputs_rendered:
  "rendered s ''hospital_name'' = ds_isCustomHospital s
   \<and> rendered s ''hospital_select'' = (\<not> ds_isCustomHospital s)"
  by (simp add: rendered_def)

lemma toggleHospitalMode_resets:
  "hospital_name (ds_formData (ui (toggleHospitalMode v))) = []
   \<and> hospital_select (ds_formData (ui (toggleHospitalMode v))) = []
   \<and> ds_isCustomHospital (ui (toggleHospitalMode v)) = (\<not> ds_isCustomHospital (ui v))"
  by (simp add: toggleHospitalMode_def setFormData_def setIsCustomHospital_def)

text \<open>
  C10. In every state of the signup form reached from the freshly mounted page, at most
  one of \<open>hospital_name\<close> and \<open>hospital_select\<close> is non-empty. In custom mode only the
  text input \<open>hospital_name\<close> is rendered, a change of the dropdown cannot happen, and
  \<open>hospital_select\<close> is empty; in list mode only the dropdown \<open>hospital_select\<close> is
  rendered, a change of the text input cannot happen, and \<open>hospital_name\<close> is empty.
  Every toggle flips the mode and resets both fields to the empty string.
\<close>

theorem hospital_fields_exclusive:
  fixes ls :: "string \<rightharpoonup> string" and r :: string and evs :: "ds_event list"
  defines "S \<equiv> ds_run (DoctorSignup ls r) evs"
  shows "(hospital_name (ds_formData (ui S)) = [] \<or> hospital_select (ds_formData (ui S)) = [])
       \<and> (ds_isCustomHospital (ui S) \<longrightarrow>
            rendered (ui S) ''hospital_name'' \<and> \<not> rendered (ui S) ''hospital_select''
            \<and> ds_step S (ChangeField ''hospital_select'' x) = S
            \<and> hospital_select (ds_formData (ui S)) = [])
       \<and> (\<not> ds_isCustomHospital (ui S) \<longrightarrow>
            rendered (ui S) ''hospital_select'' \<and> \<not> rendered (ui S) ''hospital_name''
            \<and> ds_step S (ChangeField ''hospital_name'' x) = S
            \<and> hospital_name (ds_formData (ui S)) = [])
       \<and> hospital_name (ds_formData (ui (toggleHospitalMode v))) = []
       \<and> hospital_select (ds_formData (ui (toggleHospitalMode v))) = []
       \<and> ds_isCustomHospital (ui (toggleHospitalMode v)) = (\<not> ds_isCustomHospital (ui v))"
proof -
  have inv: "(ds_isCustomHospital (ui S) \<longrightarrow> hospital_select (ds_formData (ui S)) = [])
           \<and> (\<not> ds_isCustomHospital (ui S) \<longrightarrow> hospital_name (ds_formData (ui S)) = [])"
    unfolding S_def by (rule ds_run_hospital)
  have shown: "rendered (ui S) ''hospital_name'' = ds_isCustomHospital (ui S)
             \<and> rendered (ui S) ''hospital_select'' = (\<not> ds_isCustomHospital (ui S))"
    by (rule hospital_inputs_rendered)
  have custom: "ds_isCustomHospital (ui S) \<Longrightarrow> ds_step S (ChangeField ''hospital_select'' x) = S"
    using shown by simp
  have listed: "\<not> ds_isCustomHospital (ui S) \<Longrightarrow> ds_step S (ChangeField ''hospital_name'' x) = S"
    using shown by simp
  show ?thesis
    using inv shown custom listed toggleHospitalMode_resets [of v] by blast
qed

lemma signup_custom_hospital_eq:
  "signup_custom_hospital =
     \<lparr> ui = \<lparr> ds_loading = False, ds_error = [], ds_fileName = None,
              ds_isCustomHospital = True,
              ds_formData = \<lparr> firstName = [], lastName = [], email = [], password = [],
                              hospital_name = ''Lakeside Dental'', hospital_select = [],
                              license_number = [], specialization = ''General Dentist'',
                              scheduleMode = ''continuous'', workMinutes = [],
                              breakMinutes = [] \<rparr> \<rparr>,
       localStorage = Map.empty, route = ''/auth/doctor/signup'', effects = [], inflight = 0 \<rparr>"
  by (simp add: signup_custom_hospital_def eval_defs ds_defs)

theorem hospital_fields_exclusive_witness:
  "ds_isCustomHospital (ui signup_custom_hospital)
   \<and> hospital_name (ds_formData (ui signup_custom_hospital)) = ''Lakeside Dental''
   \<and> hospital_select (ds_formData (ui signup_custom_hospital)) = []
   \<and> rendered (ui signup_custom_hospital) ''hospital_name''
   \<and> \<not> rendered (ui signup_custom_hospital) ''hospital_select''
   \<and> hospital_name (ds_formData (ui (toggleHospitalMode signup_custom_hospital))) = []
   \<and> \<not> ds_isCustomHospital (ui (toggleHospitalMode signup_custom_hospital))"
proof -
  have h: "ds_isCustomHospital (ui signup_custom_hospital)"
    by (simp add: signup_custom_hospital_eq)
  have n: "hospital_name (ds_formData (ui signup_custom_hospital)) = ''Lakeside Dental''"
    by (simp add: signup_custom_hospital_eq)
  show ?thesis
    using h n
      hospital_fields_exclusive
        [where ls = Map.empty and r = "''/auth/doctor/signup''"
           and evs = "[ChangeField ''hospital_select'' ''City Smile Hospital'',
                       ClickToggleHospital,
                       ChangeField ''hospital_name'' ''Lakeside Dental'',
                       ChangeField ''hospital_select'' ''City Smile Hospital'']"
           and v = signup_custom_hospital and x = "''Apex Dental Care''"]
    unfolding signup_custom_hospital_def [symmetric]
    by blast
qed

end
